theory Spec2Isabelle
  imports Main
begin

section \<open>Python values\<close>

text \<open>
  The values that flow through \<^verbatim>\<open>research_bot.py\<close>: None, str, int, list and dict
  (with str keys). A Python str is a \<^typ>\<open>string\<close> with one character per code point,
  for code points below 256. A dict is the list of its items in insertion order, each key
  bound once.
\<close>

datatype pyval =
    PNone
  | PStr string
  | PInt int
  | PList "pyval list"
  | PDict "(string \<times> pyval) list"

datatype py_error = AttributeError | TypeError | IndexError | KeyError

type_synonym pydict = "(string \<times> pyval) list"

text \<open>\<^verbatim>\<open>d.get(k, default)\<close> on a dict.\<close>

definition dict_get :: "pydict \<Rightarrow> string \<Rightarrow> pyval \<Rightarrow> pyval" where
  "dict_get d k dflt = (case map_of d k of None \<Rightarrow> dflt | Some v \<Rightarrow> v)"

text \<open>\<^verbatim>\<open>x.get(k, default)\<close> on any value: only a dict has the method.\<close>

fun py_get :: "pyval \<Rightarrow> string \<Rightarrow> pyval \<Rightarrow> py_error + pyval" where
  "py_get (PDict d) k dflt = Inr (dict_get d k dflt)"
| "py_get PNone k dflt = Inl AttributeError"
| "py_get (PStr s) k dflt = Inl AttributeError"
| "py_get (PInt i) k dflt = Inl AttributeError"
| "py_get (PList vs) k dflt = Inl AttributeError"

text \<open>Truthiness, as \<^verbatim>\<open>if x\<close> tests it.\<close>

fun py_truthy :: "pyval \<Rightarrow> bool" where
  "py_truthy PNone = False"
| "py_truthy (PStr s) = (s \<noteq> [])"
| "py_truthy (PInt i) = (i \<noteq> 0)"
| "py_truthy (PList vs) = (vs \<noteq> [])"
| "py_truthy (PDict d) = (d \<noteq> [])"

subsection \<open>Strings\<close>

text \<open>\<^verbatim>\<open>sep.join(xs)\<close> on a list of strings.\<close>

fun join :: "string \<Rightarrow> string list \<Rightarrow> string" where
  "join sep [] = []"
| "join sep [x] = x"
| "join sep (x # y # ys) = x @ sep @ join sep (y # ys)"

text \<open>
  \<^verbatim>\<open>s.split(sep)\<close> for a non-empty separator: the fields between the occurrences of
  \<open>sep\<close>, scanned from the left; \<open>acc\<close> is the field being read.
\<close>

function split_sep :: "string \<Rightarrow> string \<Rightarrow> string \<Rightarrow> string list" where
  "split_sep sep acc [] = [acc]"
| "split_sep sep acc (c # cs) =
     (if sep \<noteq> [] \<and> take (length sep) (c # cs) = sep
      then acc # split_sep sep [] (drop (length sep) (c # cs))
      else split_sep sep (acc @ [c]) cs)"
  by pat_completeness auto
termination
  by (relation "measure (\<lambda>(sep, acc, s). length s)") auto

text \<open>
  The whitespace of \<^verbatim>\<open>str.split()\<close> among the code points below 256:
  U+0009..U+000D, U+001C..U+0020, U+0085 and U+00A0.
\<close>

definition py_isspace :: "char \<Rightarrow> bool" where
  "py_isspace c =
     (let n = (of_char c :: nat)
      in (9 \<le> n \<and> n \<le> 13) \<or> (28 \<le> n \<and> n \<le> 32) \<or> n = 133 \<or> n = 160)"

text \<open>\<^verbatim>\<open>s.split()\<close>: the maximal runs of non-whitespace characters.\<close>

fun split_ws :: "string \<Rightarrow> string \<Rightarrow> string list" where
  "split_ws acc [] = (if acc = [] then [] else [acc])"
| "split_ws acc (c # cs) =
     (if py_isspace c
      then (if acc = [] then split_ws [] cs else acc # split_ws [] cs)
      else split_ws (acc @ [c]) cs)"

text \<open>\<^verbatim>\<open>str(n)\<close> of a non-negative and of any integer.\<close>

definition digit_char :: "nat \<Rightarrow> char" where
  "digit_char d = ''0123456789'' ! d"

fun str_nat :: "nat \<Rightarrow> string" where
  "str_nat n = (if n < 10 then [digit_char n] else str_nat (n div 10) @ [digit_char (n mod 10)])"

declare str_nat.simps [simp del]

definition str_int :: "int \<Rightarrow> string" where
  "str_int i = (if i < 0 then CHR ''-'' # str_nat (nat (- i)) else str_nat (nat i))"

text \<open>
  \<^verbatim>\<open>repr\<close> of a str: single quotes, unless the text has a single quote and no
  double quote; the quote and the backslash are escaped, tab, newline and carriage
  return are written with their letters, and the other non-printable code points as
  \<^verbatim>\<open>\xhh\<close>.
\<close>

definition hex_digit :: "nat \<Rightarrow> char" where
  "hex_digit d = ''0123456789abcdef'' ! d"

definition py_printable :: "char \<Rightarrow> bool" where
  "py_printable c =
     (let n = (of_char c :: nat)
      in (32 \<le> n \<and> n < 127) \<or> (161 \<le> n \<and> n \<noteq> 173))"

definition repr_char :: "char \<Rightarrow> char \<Rightarrow> string" where
  "repr_char quote c =
     (if c = quote \<or> c = CHR 0x5C then [CHR 0x5C, c]
      else if c = CHR 0x09 then [CHR 0x5C, CHR ''t'']
      else if c = CHR 0x0A then [CHR 0x5C, CHR ''n'']
      else if c = CHR 0x0D then [CHR 0x5C, CHR ''r'']
      else if py_printable c then [c]
      else [CHR 0x5C, CHR ''x'', hex_digit (of_char c div 16), hex_digit (of_char c mod 16)])"

definition repr_str :: "string \<Rightarrow> string" where
  "repr_str s =
     (let quote = (if CHR 0x27 \<in> set s \<and> CHR 0x22 \<notin> set s then CHR 0x22 else CHR 0x27)
      in [quote] @ concat (map (repr_char quote) s) @ [quote])"

text \<open>\<^verbatim>\<open>repr(x)\<close> and \<^verbatim>\<open>str(x)\<close>; an f-string field \<^verbatim>\<open>{x}\<close> is \<^verbatim>\<open>str(x)\<close>.\<close>

fun py_repr :: "pyval \<Rightarrow> string"
  and repr_items :: "pyval list \<Rightarrow> string list"
  and repr_pairs :: "(string \<times> pyval) list \<Rightarrow> string list" where
  "py_repr PNone = ''None''"
| "py_repr (PStr s) = repr_str s"
| "py_repr (PInt i) = str_int i"
| "py_repr (PList vs) = ''['' @ join '', '' (repr_items vs) @ '']''"
| "py_repr (PDict d) = ''{'' @ join '', '' (repr_pairs d) @ ''}''"
| "repr_items [] = []"
| "repr_items (v # vs) = py_repr v # repr_items vs"
| "repr_pairs [] = []"
| "repr_pairs ((k, v) # d) = (repr_str k @ '': '' @ py_repr v) # repr_pairs d"

fun py_str :: "pyval \<Rightarrow> string" where
  "py_str (PStr s) = s"
| "py_str v = py_repr v"

section \<open>The citation formatter: \<^verbatim>\<open>generate_bibtex\<close>\<close>

text \<open>
  \<^verbatim>\<open>re.sub(r'[{}]', '', title)\<close>: the scan drops every character of the class and keeps
  the others. On a value that is not a str the call raises TypeError.
\<close>

fun sub_braces :: "string \<Rightarrow> string" where
  "sub_braces [] = []"
| "sub_braces (c # cs) =
     (if c = CHR 0x7B \<or> c = CHR 0x7D then sub_braces cs else c # sub_braces cs)"

fun re_sub_braces :: "pyval \<Rightarrow> py_error + string" where
  "re_sub_braces (PStr s) = Inr (sub_braces s)"
| "re_sub_braces v = Inl TypeError"

text \<open>\<^verbatim>\<open>authors.split(', ')\<close>: only a str has the method.\<close>

fun py_split :: "pyval \<Rightarrow> string \<Rightarrow> py_error + string list" where
  "py_split (PStr s) sep = Inr (split_sep sep [] s)"
| "py_split v sep = Inl AttributeError"

text \<open>
  Line 41: \<^verbatim>\<open>author_list[0].split()[-1] if author_list and author_list[0] else 'unknown'\<close>.
  The index \<^verbatim>\<open>[-1]\<close> raises IndexError on an empty list.
\<close>

definition first_author_of :: "string list \<Rightarrow> py_error + string" where
  "first_author_of author_list =
     (if author_list \<noteq> [] \<and> hd author_list \<noteq> []
      then (case split_ws [] (hd author_list) of
              [] \<Rightarrow> Inl IndexError
            | w # ws \<Rightarrow> Inr (last (w # ws)))
      else Inr ''unknown'')"

text \<open>The field \<^verbatim>\<open>{year if year != 'N/A' else 'unknown'}\<close> of lines 42 and 48.\<close>

definition year_or_unknown :: "pyval \<Rightarrow> string" where
  "year_or_unknown year = py_str (if year \<noteq> PStr ''N/A'' then year else PStr ''unknown'')"

text \<open>The field \<^verbatim>\<open>{url if url else 'N/A'}\<close> of line 49.\<close>

definition url_or_na :: "pyval \<Rightarrow> string" where
  "url_or_na url = py_str (if py_truthy url then url else PStr ''N/A'')"

text \<open>The local variables of \<^verbatim>\<open>generate_bibtex\<close> once line 42 is reached.\<close>

record bibtex_vars =
  title :: string
  bibtex_author :: string
  first_author :: string
  year :: pyval
  url :: pyval
  bibtex_key :: string

text \<open>Lines 28 to 42.\<close>

definition bibtex_locals :: "pydict \<Rightarrow> nat \<Rightarrow> py_error + bibtex_vars" where
  "bibtex_locals result index =
     (let title0 = dict_get result ''Title'' (PStr ''Untitled'');
          authors = dict_get result ''Authors'' (PStr ''Unknown Author'');
          year0 = dict_get result ''Year'' (PStr ''N/A'');
          url0 = dict_get result ''URL'' (PStr [])
      in case re_sub_braces title0 of
           Inl e \<Rightarrow> Inl e
         | Inr title1 \<Rightarrow>
             (case py_split authors '', '' of
                Inl e \<Rightarrow> Inl e
              | Inr author_list \<Rightarrow>
                  (case first_author_of author_list of
                     Inl e \<Rightarrow> Inl e
                   | Inr fa \<Rightarrow>
                       Inr \<lparr>title = title1,
                            bibtex_author =
                              (if author_list \<noteq> [] then join '' and '' author_list
                               else ''Unknown Author''),
                            first_author = fa,
                            year = year0,
                            url = url0,
                            bibtex_key = fa @ year_or_unknown year0 @ str_nat index\<rparr>)))"

text \<open>Lines 45 to 50: the entry, one field per line.\<close>

definition bibtex_entry :: "bibtex_vars \<Rightarrow> string" where
  "bibtex_entry v =
     ''@article{'' @ bibtex_key v @ '','' @ [CHR 0x0A] @
     ''    title = {'' @ title v @ ''},'' @ [CHR 0x0A] @
     ''    author = {'' @ bibtex_author v @ ''},'' @ [CHR 0x0A] @
     ''    year = {'' @ year_or_unknown (year v) @ ''},'' @ [CHR 0x0A] @
     ''    url = {'' @ url_or_na (url v) @ ''}'' @ [CHR 0x0A] @
     ''}''"

definition generate_bibtex :: "pydict \<Rightarrow> nat \<Rightarrow> py_error + string" where
  "generate_bibtex result index =
     (case bibtex_locals result index of
        Inl e \<Rightarrow> Inl e
      | Inr v \<Rightarrow> Inr (bibtex_entry v))"

section \<open>Normalisation of a Scholar record (lines 122 to 129)\<close>

text \<open>
  \<^verbatim>\<open>", ".join(x)\<close>: \<open>x\<close> is iterated (a str by characters, a dict by keys) and every
  item must be a str.
\<close>

fun the_strs :: "pyval list \<Rightarrow> py_error + string list" where
  "the_strs [] = Inr []"
| "the_strs (PStr s # vs) =
     (case the_strs vs of Inl e \<Rightarrow> Inl e | Inr ss \<Rightarrow> Inr (s # ss))"
| "the_strs (v # vs) = Inl TypeError"

fun py_join :: "string \<Rightarrow> pyval \<Rightarrow> py_error + string" where
  "py_join sep (PList vs) =
     (case the_strs vs of Inl e \<Rightarrow> Inl e | Inr ss \<Rightarrow> Inr (join sep ss))"
| "py_join sep (PStr s) = Inr (join sep (map (\<lambda>c. [c]) s))"
| "py_join sep (PDict d) = Inr (join sep (map fst d))"
| "py_join sep PNone = Inl TypeError"
| "py_join sep (PInt i) = Inl TypeError"

definition normalize_record :: "pyval \<Rightarrow> py_error + pydict" where
  "normalize_record pub =
     (case py_get pub ''bib'' (PDict []) of
        Inl e \<Rightarrow> Inl e
      | Inr bib \<Rightarrow>
     (case py_get bib ''title'' (PStr ''N/A'') of
        Inl e \<Rightarrow> Inl e
      | Inr title_v \<Rightarrow>
     (case py_get bib ''author'' (PList []) of
        Inl e \<Rightarrow> Inl e
      | Inr author_v \<Rightarrow>
     (case py_join '', '' author_v of
        Inl e \<Rightarrow> Inl e
      | Inr authors \<Rightarrow>
     (case py_get bib ''pub_year'' (PStr ''N/A'') of
        Inl e \<Rightarrow> Inl e
      | Inr year_v \<Rightarrow>
     (case py_get pub ''num_citations'' (PInt 0) of
        Inl e \<Rightarrow> Inl e
      | Inr cited \<Rightarrow>
     (case py_get bib ''abstract'' (PStr ''N/A'') of
        Inl e \<Rightarrow> Inl e
      | Inr abstract \<Rightarrow>
     (case py_get pub ''pub_url'' (PStr ''N/A'') of
        Inl e \<Rightarrow> Inl e
      | Inr pub_url \<Rightarrow>
     (case py_get pub ''eprint_url'' pub_url of
        Inl e \<Rightarrow> Inl e
      | Inr url_v \<Rightarrow>
          Inr [(''Title'', title_v),
               (''Authors'', PStr authors),
               (''Year'', year_v),
               (''Cited By'', cited),
               (''Abstract'', abstract),
               (''URL'', url_v)])))))))))"

section \<open>The Scholar loop (lines 115 to 131)\<close>

text \<open>
  The adapter's generator is the list of the records it still has to yield. Each pass of
  \<^verbatim>\<open>for i, result in enumerate(search_query)\<close> pulls one record into \<open>result\<close>; past the
  test on \<open>i\<close>, \<^verbatim>\<open>next(search_query)\<close> pulls one more into \<open>pub\<close>, and that one is
  normalised. StopIteration from \<^verbatim>\<open>next\<close> is caught and ends the loop; any other
  exception leaves the loop uncaught.
\<close>

fun scholar_loop :: "nat \<Rightarrow> nat \<Rightarrow> pyval list \<Rightarrow> pydict list \<Rightarrow> py_error + pydict list" where
  "scholar_loop num_results i [] results = Inr results"
| "scholar_loop num_results i [result] results = Inr results"
| "scholar_loop num_results i (result # pub # rest) results =
     (if i \<ge> num_results then Inr results
      else (case normalize_record pub of
              Inl e \<Rightarrow> Inl e
            | Inr r \<Rightarrow> scholar_loop num_results (Suc i) rest (results @ [r])))"

definition scholar_search :: "nat \<Rightarrow> pyval list \<Rightarrow> py_error + pydict list" where
  "scholar_search num_results search_query = scholar_loop num_results 0 search_query []"

section \<open>Texts for display (lines 139, 165 and 143 to 149)\<close>

text \<open>The text handed to \<^verbatim>\<open>st.write\<close> for an abstract (line 139) and a snippet (line 165).\<close>

definition abstract_text :: "string \<Rightarrow> string" where
  "abstract_text abstract =
     (if length abstract > 200 then ''**Abstract:** '' @ take 200 abstract @ ''...''
      else abstract)"

definition snippet_text :: "string \<Rightarrow> string" where
  "snippet_text body = ''**Snippet:** '' @ take 150 body @ ''...''"

text \<open>
  The download button of one result (lines 143 to 149). \<open>stamp\<close> is the text of
  \<^verbatim>\<open>datetime.now().strftime('%Y%m%d_%H%M%S')\<close> at the moment of the call; the label is
  presentation and is left out.
\<close>

record download =
  data :: string
  file_name :: string
  mime :: string

definition bibtex_download :: "string \<Rightarrow> pydict \<Rightarrow> nat \<Rightarrow> py_error + download" where
  "bibtex_download stamp result idx =
     (case generate_bibtex result idx of
        Inl e \<Rightarrow> Inl e
      | Inr bibtex_content \<Rightarrow>
          Inr \<lparr>data = bibtex_content,
               file_name = ''citation_'' @ str_nat (idx + 1) @ ''_'' @ stamp @ ''.bib'',
               mime = ''text/bib''\<rparr>)"

section \<open>The pages (lines 134 to 154 and 162 to 171)\<close>

text \<open>
  \<^verbatim>\<open>x[k]\<close> with a str key: a dict without the key raises KeyError, any other value
  TypeError. \<^verbatim>\<open>len(x)\<close> and \<^verbatim>\<open>x[:n]\<close>: None and an int raise TypeError; a dict has
  a length, and its slice raises (TypeError; KeyError from Python 3.12 on, where a slice
  can be hashed: the model takes the former).
\<close>

fun py_item :: "pyval \<Rightarrow> string \<Rightarrow> py_error + pyval" where
  "py_item (PDict d) k = (case map_of d k of None \<Rightarrow> Inl KeyError | Some v \<Rightarrow> Inr v)"
| "py_item PNone k = Inl TypeError"
| "py_item (PStr s) k = Inl TypeError"
| "py_item (PInt i) k = Inl TypeError"
| "py_item (PList vs) k = Inl TypeError"

fun py_len :: "pyval \<Rightarrow> py_error + nat" where
  "py_len (PStr s) = Inr (length s)"
| "py_len (PList vs) = Inr (length vs)"
| "py_len (PDict d) = Inr (length d)"
| "py_len PNone = Inl TypeError"
| "py_len (PInt i) = Inl TypeError"

fun py_slice :: "nat \<Rightarrow> pyval \<Rightarrow> py_error + pyval" where
  "py_slice n (PStr s) = Inr (PStr (take n s))"
| "py_slice n (PList vs) = Inr (PList (take n vs))"
| "py_slice n (PDict d) = Inl TypeError"
| "py_slice n PNone = Inl TypeError"
| "py_slice n (PInt i) = Inl TypeError"

text \<open>One statement after another: the first exception ends the run.\<close>

definition py_then :: "py_error + 'a \<Rightarrow> ('a \<Rightarrow> py_error + 'b) \<Rightarrow> py_error + 'b" where
  "py_then m f = (case m of Inl e \<Rightarrow> Inl e | Inr x \<Rightarrow> f x)"

text \<open>
  The argument of \<^verbatim>\<open>st.write\<close> at line 139: the test on the length comes first, and
  reads \<^verbatim>\<open>result['Abstract']\<close> as it is; and the text written at line 165.
\<close>

definition abstract_write :: "pyval \<Rightarrow> py_error + pyval" where
  "abstract_write abstract =
     py_then (py_len abstract) (\<lambda>n.
       if n > 200
       then py_then (py_slice 200 abstract) (\<lambda>x.
              Inr (PStr (''**Abstract:** '' @ py_str x @ ''...'')))
       else Inr abstract)"

definition snippet_write :: "pyval \<Rightarrow> py_error + string" where
  "snippet_write body =
     py_then (py_slice 150 body) (\<lambda>x. Inr (''**Snippet:** '' @ py_str x @ ''...''))"

text \<open>
  The calls that build a page, each named after its place in the script. A call carries
  what the script computes for it; the fixed wording and pictograph of a label are not
  repeated. \<open>Scholar_subheader\<close> and \<open>Web_subheader\<close> carry the query (lines 134 and
  162), \<open>Expander\<close> the label of a card (lines 136 and 164), \<open>Write\<close> the argument of
  \<^verbatim>\<open>st.write\<close>, \<open>View_paper\<close> and \<open>Visit_site\<close> the target of the link (lines 141 and
  166), \<open>Bibtex_button\<close> the download of lines 144 to 149, and \<open>Csv_button\<close> the data and
  the file name of the export (lines 154 and 171).
\<close>

datatype st_call =
    Scholar_subheader string
  | Web_subheader string
  | Expander string
  | Write pyval
  | View_paper string
  | Visit_site string
  | Bibtex_button download
  | Csv_button string string

text \<open>The body of the loop of line 135, for one result at one clock reading.\<close>

definition scholar_card :: "string \<Rightarrow> pydict \<Rightarrow> nat \<Rightarrow> py_error + st_call list" where
  "scholar_card stamp result idx =
     py_then (py_item (PDict result) ''Title'') (\<lambda>title_v.
     py_then (py_item (PDict result) ''Cited By'') (\<lambda>cited.
     py_then (py_item (PDict result) ''Authors'') (\<lambda>authors.
     py_then (py_item (PDict result) ''Year'') (\<lambda>year_v.
     py_then (py_item (PDict result) ''Abstract'') (\<lambda>abstract.
     py_then (abstract_write abstract) (\<lambda>written.
     py_then (py_item (PDict result) ''URL'') (\<lambda>url_v.
     py_then (bibtex_download stamp result idx) (\<lambda>button.
       Inr ([Expander (''**'' @ py_str title_v @ ''** (Cited: '' @ py_str cited @ '')''),
             Write (PStr (''**Authors:** '' @ py_str authors)),
             Write (PStr (''**Year:** '' @ py_str year_v)),
             Write written] @
            (if py_truthy url_v then [View_paper (py_str url_v)] else []) @
            [Bibtex_button button])))))))))"

text \<open>
  \<^verbatim>\<open>for idx, result in enumerate(results)\<close>; \<open>now k\<close> is the text of
  \<^verbatim>\<open>datetime.now().strftime('%Y%m%d_%H%M%S')\<close> at the \<open>k\<close>-th reading of the clock in
  the run, and each card reads the clock once.
\<close>

fun scholar_cards :: "(nat \<Rightarrow> string) \<Rightarrow> nat \<Rightarrow> pydict list \<Rightarrow> py_error + st_call list" where
  "scholar_cards now idx [] = Inr []"
| "scholar_cards now idx (result # results) =
     py_then (scholar_card (now idx) result idx) (\<lambda>card.
     py_then (scholar_cards now (Suc idx) results) (\<lambda>cards.
       Inr (card @ cards)))"

text \<open>The body of the loop of line 163, and the loop.\<close>

definition web_card :: "pyval \<Rightarrow> py_error + st_call list" where
  "web_card result =
     py_then (py_item result ''title'') (\<lambda>title_v.
     py_then (py_item result ''body'') (\<lambda>body.
     py_then (snippet_write body) (\<lambda>snippet.
     py_then (py_item result ''href'') (\<lambda>href.
       Inr [Expander (''**'' @ py_str title_v @ ''**''),
            Write (PStr snippet),
            Visit_site (py_str href)]))))"

fun web_cards :: "pyval list \<Rightarrow> py_error + st_call list" where
  "web_cards [] = Inr []"
| "web_cards (result # results) =
     py_then (web_card result) (\<lambda>card.
     py_then (web_cards results) (\<lambda>cards.
       Inr (card @ cards)))"

section \<open>The search button (lines 110 to 174)\<close>

datatype search_type = Google_Scholar | Web_DuckDuckGo

datatype adapter_call = Search_pubs string | Ddgs_text string nat

text \<open>
  What the page holds after the run: nothing new, the warning of line 174, the calls of
  a results page, or the exception that ended the run.
\<close>

datatype outcome =
    Idle
  | Warning
  | Page "st_call list"
  | Raised py_error

text \<open>
  What the script calls outside itself: the two search adapters, the CSV text that pandas
  makes of a list of records, and the clock.
\<close>

record adapters =
  search_pubs :: "string \<Rightarrow> pyval list"
  ddgs_text :: "string \<Rightarrow> nat \<Rightarrow> pyval list"
  to_csv :: "pyval list \<Rightarrow> string"
  now :: "nat \<Rightarrow> string"

text \<open>The two branches of line 113, from the fetch to the export.\<close>

definition scholar_page :: "adapters \<Rightarrow> string \<Rightarrow> nat \<Rightarrow> outcome" where
  "scholar_page A query num_results =
     (case scholar_search num_results (search_pubs A query) of
        Inl e \<Rightarrow> Raised e
      | Inr results \<Rightarrow>
          (case scholar_cards (now A) 0 results of
             Inl e \<Rightarrow> Raised e
           | Inr cards \<Rightarrow>
               Page ([Scholar_subheader query] @ cards @
                     (if results \<noteq> []
                      then [Csv_button (to_csv A (map PDict results))
                              (''scholar_results_'' @ now A (length results) @ ''.csv'')]
                      else []))))"

definition web_page :: "adapters \<Rightarrow> string \<Rightarrow> nat \<Rightarrow> outcome" where
  "web_page A query num_results =
     (let web_results = ddgs_text A query num_results
      in case web_cards web_results of
           Inl e \<Rightarrow> Raised e
         | Inr cards \<Rightarrow>
             Page ([Web_subheader query] @ cards @
                   (if web_results \<noteq> []
                    then [Csv_button (to_csv A web_results)
                            (''web_results_'' @ now A 0 @ ''.csv'')]
                    else [])))"

text \<open>
  One run of the script: whether the button was pressed, the query, the sidebar settings.
  The value is the list of adapter calls made and what the page then holds.
\<close>

definition on_search ::
  "adapters \<Rightarrow> bool \<Rightarrow> string \<Rightarrow> search_type \<Rightarrow> nat \<Rightarrow> adapter_call list \<times> outcome" where
  "on_search A pressed query st num_results =
     (if pressed then
        (if query \<noteq> [] then
           (case st of
              Google_Scholar \<Rightarrow> ([Search_pubs query], scholar_page A query num_results)
            | Web_DuckDuckGo \<Rightarrow> ([Ddgs_text query num_results], web_page A query num_results))
         else ([], Warning))
      else ([], Idle))"

section \<open>The records the loop normalises\<close>

text \<open>
  The records the loop hands to normalisation when nothing raises: of each pair of
  records pulled in one pass, the second; at most \<open>num_results\<close> of them.
\<close>

fun pulled :: "nat \<Rightarrow> pyval list \<Rightarrow> pyval list" where
  "pulled 0 search_query = []"
| "pulled (Suc n) [] = []"
| "pulled (Suc n) [result] = []"
| "pulled (Suc n) (result # pub # rest) = pub # pulled n rest"

text \<open>Whether a record normalises, and its normal form when it does.\<close>

definition normalizes :: "pyval \<Rightarrow> bool" where
  "normalizes pub = (case normalize_record pub of Inl e \<Rightarrow> False | Inr r \<Rightarrow> True)"

definition normalized :: "pyval \<Rightarrow> pydict" where
  "normalized pub = (case normalize_record pub of Inl e \<Rightarrow> [] | Inr r \<Rightarrow> r)"

section \<open>Reference inputs\<close>

text \<open>The publication of the specification's example, as \<^verbatim>\<open>scholarly\<close> nests it.\<close>

definition deep_learning_pub :: pyval where
  "deep_learning_pub =
     PDict [(''bib'', PDict [(''title'', PStr ''Deep Learning''),
                            (''author'', PList [PStr ''Ian Goodfellow'', PStr ''Yoshua Bengio'']),
                            (''pub_year'', PInt 2016),
                            (''abstract'', PStr [])]),
            (''num_citations'', PInt 50000),
            (''eprint_url'', PStr [])]"

text \<open>The same record with every field at the top level, as the example writes it.\<close>

definition deep_learning_flat :: pyval where
  "deep_learning_flat =
     PDict [(''title'', PStr ''Deep Learning''),
            (''author'', PList [PStr ''Ian Goodfellow'', PStr ''Yoshua Bengio'']),
            (''pub_year'', PInt 2016),
            (''num_citations'', PInt 50000),
            (''abstract'', PStr []),
            (''eprint_url'', PStr [])]"

definition deep_learning_result :: pydict where
  "deep_learning_result =
     [(''Title'', PStr ''Deep Learning''),
      (''Authors'', PStr ''Ian Goodfellow, Yoshua Bengio''),
      (''Year'', PInt 2016),
      (''Cited By'', PInt 50000),
      (''Abstract'', PStr []),
      (''URL'', PStr [])]"

text \<open>The same result with another citation count and another abstract.\<close>

definition deep_learning_recounted :: pydict where
  "deep_learning_recounted =
     [(''Title'', PStr ''Deep Learning''),
      (''Authors'', PStr ''Ian Goodfellow, Yoshua Bengio''),
      (''Year'', PInt 2016),
      (''Cited By'', PInt 7),
      (''Abstract'', PStr ''A textbook.''),
      (''URL'', PStr [])]"

text \<open>A record whose \<^verbatim>\<open>bib\<close> is None, and one whose only author is a blank.\<close>

definition malformed_pub :: pyval where
  "malformed_pub = PDict [(''bib'', PNone)]"

definition blank_author_pub :: pyval where
  "blank_author_pub =
     PDict [(''bib'', PDict [(''title'', PStr ''Notes''),
                            (''author'', PList [PStr '' '']),
                            (''pub_year'', PStr ''2020'')])]"

definition blank_author_result :: pydict where
  "blank_author_result =
     [(''Title'', PStr ''Notes''),
      (''Authors'', PStr '' ''),
      (''Year'', PStr ''2020''),
      (''Cited By'', PInt 0),
      (''Abstract'', PStr ''N/A''),
      (''URL'', PStr ''N/A'')]"

text \<open>The normal form of the flat record, and a result without a year.\<close>

definition deep_learning_flat_result :: pydict where
  "deep_learning_flat_result =
     [(''Title'', PStr ''N/A''),
      (''Authors'', PStr []),
      (''Year'', PStr ''N/A''),
      (''Cited By'', PInt 50000),
      (''Abstract'', PStr ''N/A''),
      (''URL'', PStr [])]"

definition undated_result :: pydict where
  "undated_result =
     [(''Title'', PStr ''Neural {Nets} Revisited''),
      (''Authors'', PStr ''Ada Lovelace''),
      (''Year'', PStr ''N/A''),
      (''URL'', PStr ''http://x'')]"

section \<open>Decimal numerals\<close>

lemma str_nat_snoc:
  "str_nat n = (if n < 10 then [] else str_nat (n div 10)) @ [digit_char (n mod 10)]"
  by (subst str_nat.simps) simp

lemma str_nat_nonempty: "str_nat n \<noteq> []"
  by (subst str_nat_snoc) simp

lemma str_nat_digit: "n < 10 \<Longrightarrow> str_nat n = [digit_char n]"
  by (subst str_nat.simps) simp

lemma digit_char_inj: "a < 10 \<Longrightarrow> b < 10 \<Longrightarrow> digit_char a = digit_char b \<Longrightarrow> a = b"
  by (simp add: digit_char_def nth_eq_iff_index_eq)

lemma str_nat_inj: "str_nat a = str_nat b \<Longrightarrow> a = b"
proof (induction a arbitrary: b rule: str_nat.induct)
  case (1 n)
  have da: "n mod 10 < 10" and db: "b mod 10 < 10" by simp_all
  from "1.prems" have eq:
    "(if n < 10 then [] else str_nat (n div 10)) @ [digit_char (n mod 10)] =
     (if b < 10 then [] else str_nat (b div 10)) @ [digit_char (b mod 10)]"
    using str_nat_snoc [of n] str_nat_snoc [of b] by simp
  then have pre:
    "(if n < 10 then [] else str_nat (n div 10)) = (if b < 10 then [] else str_nat (b div 10))"
    and dig: "digit_char (n mod 10) = digit_char (b mod 10)" by simp_all
  from dig have m: "n mod 10 = b mod 10" using digit_char_inj [OF da db] by simp
  show ?case
  proof (cases "n < 10")
    case True
    with pre have "b < 10" using str_nat_nonempty [of "b div 10"] by (auto split: if_splits)
    with True m show ?thesis by simp
  next
    case False
    with pre have b: "\<not> b < 10"
      using str_nat_nonempty [of "n div 10"] by (auto split: if_splits)
    with False pre have "str_nat (n div 10) = str_nat (b div 10)" by simp
    with "1.IH" False have "n div 10 = b div 10" by simp
    with m show ?thesis by (metis div_mult_mod_eq)
  qed
qed

section \<open>The loop, by the records it normalises\<close>

lemma normalize_deep_learning: "normalize_record deep_learning_pub = Inr deep_learning_result"
  by (simp add: normalize_record_def deep_learning_pub_def deep_learning_result_def dict_get_def)

lemma normalize_malformed: "normalize_record malformed_pub = Inl AttributeError"
  by (simp add: normalize_record_def malformed_pub_def dict_get_def)

lemma scholar_loop_ok:
  "list_all normalizes (pulled (n - i) sq) \<Longrightarrow>
   scholar_loop n i sq acc = Inr (acc @ map normalized (pulled (n - i) sq))"
proof (induction n i sq acc rule: scholar_loop.induct)
  case (1 n i results)
  then show ?case by (cases "n - i") simp_all
next
  case (2 n i result results)
  then show ?case by (cases "n - i") simp_all
next
  case (3 n i result pub rest results)
  show ?case
  proof (cases "i \<ge> n")
    case True
    then show ?thesis by simp
  next
    case False
    then obtain m where m: "n - i = Suc m" by (cases "n - i") auto
    with False have m': "n - Suc i = m" by simp
    from "3.prems" m have ok: "normalizes pub" and rest: "list_all normalizes (pulled m rest)"
      by simp_all
    from ok obtain r where r: "normalize_record pub = Inr r"
      by (auto simp: normalizes_def split: sum.splits)
    then have nr: "normalized pub = r" by (simp add: normalized_def)
    from "3.IH" [OF _ r] False rest m'
    have "scholar_loop n (Suc i) rest (results @ [r]) =
          Inr ((results @ [r]) @ map normalized (pulled m rest))"
      by simp
    with False r nr m show ?thesis by simp
  qed
qed

lemma scholar_loop_abort:
  "\<not> list_all normalizes (pulled (n - i) sq) \<Longrightarrow> \<exists>e. scholar_loop n i sq acc = Inl e"
proof (induction n i sq acc rule: scholar_loop.induct)
  case (1 n i results)
  then show ?case by (cases "n - i") simp_all
next
  case (2 n i result results)
  then show ?case by (cases "n - i") simp_all
next
  case (3 n i result pub rest results)
  show ?case
  proof (cases "i \<ge> n")
    case True
    with "3.prems" show ?thesis by simp
  next
    case False
    then obtain m where m: "n - i = Suc m" by (cases "n - i") auto
    with False have m': "n - Suc i = m" by simp
    show ?thesis
    proof (cases "normalize_record pub")
      case (Inl e)
      with False show ?thesis by simp
    next
      case (Inr r)
      then have "normalizes pub" by (simp add: normalizes_def)
      with "3.prems" m have "\<not> list_all normalizes (pulled m rest)" by simp
      with "3.IH" [OF _ Inr] False m'
      have "\<exists>e. scholar_loop n (Suc i) rest (results @ [r]) = Inl e"
        by simp
      with False Inr show ?thesis by simp
    qed
  qed
qed



text \<open>
  C1. For every limit from 1 to 10 and every adapter sequence of length \<open>N\<close>, the query
  is to return \<open>min N limit\<close> results. The Scholar loop pulls two records in each pass and
  keeps the second: a sequence of one record gives no result under the limit 1, and a
  sequence of two records gives one result under the limit 2.
\<close>

theorem scholar_search_halves:
  "scholar_search 1 [deep_learning_pub] = Inr [] \<and>
   scholar_search 2 [deep_learning_pub, deep_learning_pub] = Inr [deep_learning_result]"
  by (simp add: scholar_search_def numeral_2_eq_2 normalize_deep_learning)

section \<open>Truncation for display\<close>

lemma abstract_text_short: "length abstract \<le> 200 \<Longrightarrow> abstract_text abstract = abstract"
  by (simp add: abstract_text_def)

lemma abstract_text_long:
  "length abstract > 200 \<Longrightarrow>
   abstract_text abstract = ''**Abstract:** '' @ take 200 abstract @ ''...''"
  by (simp add: abstract_text_def)

text \<open>
  C2. A text within the limit (200 characters for an abstract, 150 for a web body) is to
  pass unchanged, with no ellipsis. The abstract does (\<open>abstract_text_short\<close>); the web
  snippet gets the ellipsis at any length, here at three characters.
\<close>

theorem snippet_text_short_ellipsis: "snippet_text ''abc'' = ''**Snippet:** abc...''"
  by (simp add: snippet_text_def)

section \<open>The citation key and the entry\<close>

lemma bibtex_locals_fields:
  assumes "bibtex_locals result index = Inr v"
  shows "bibtex_key v = first_author v @ year_or_unknown (year v) @ str_nat index"
    and "year v = dict_get result ''Year'' (PStr ''N/A'')"
    and "url v = dict_get result ''URL'' (PStr [])"
    and "re_sub_braces (dict_get result ''Title'' (PStr ''Untitled'')) = Inr (title v)"
  using assms by (auto simp: bibtex_locals_def Let_def split: sum.splits)


text \<open>Two results with the same surname and year get different keys at any two ordinals.\<close>

lemma bibtex_key_same_author_year:
  assumes "bibtex_locals r1 i = Inr v1" and "bibtex_locals r2 j = Inr v2"
    and "first_author v1 = first_author v2" and "year v1 = year v2" and "i \<noteq> j"
  shows "bibtex_key v1 \<noteq> bibtex_key v2"
  using bibtex_locals_fields(1) [OF assms(1)] bibtex_locals_fields(1) [OF assms(2)] assms(3-5)
  by (auto dest: str_nat_inj)

text \<open>
  Past ten results the ordinal alone no longer separates the keys: the year 21 at
  ordinal 1 and the year 2 at ordinal 11 give the same key.
\<close>

lemma bibtex_key_two_digit_ordinal:
  "map_sum id bibtex_key (bibtex_locals [(''Authors'', PStr ''A''), (''Year'', PStr ''21'')] 1) =
     Inr ''A211'' \<and>
   map_sum id bibtex_key (bibtex_locals [(''Authors'', PStr ''A''), (''Year'', PStr ''2'')] 11) =
     Inr ''A211''"
  by (simp add: bibtex_locals_def dict_get_def first_author_of_def py_isspace_def
      year_or_unknown_def str_nat.simps digit_char_def)

lemma locals_deep_learning:
  "bibtex_locals deep_learning_result 0 =
     Inr \<lparr>title = ''Deep Learning'', bibtex_author = ''Ian Goodfellow and Yoshua Bengio'',
          first_author = ''Goodfellow'', year = PInt 2016, url = PStr [],
          bibtex_key = ''Goodfellow20160''\<rparr>"
  by (simp add: bibtex_locals_def deep_learning_result_def dict_get_def first_author_of_def
      py_isspace_def year_or_unknown_def str_int_def str_nat.simps digit_char_def)


lemma locals_undated:
  "bibtex_locals undated_result 3 =
     Inr \<lparr>title = ''Neural Nets Revisited'', bibtex_author = ''Ada Lovelace'',
          first_author = ''Lovelace'', year = PStr ''N/A'', url = PStr ''http://x'',
          bibtex_key = ''Lovelaceunknown3''\<rparr>"
  by (simp add: bibtex_locals_def undated_result_def dict_get_def first_author_of_def
      py_isspace_def year_or_unknown_def str_nat.simps digit_char_def)

lemma generate_undated:
  "generate_bibtex undated_result 3 =
     Inr (''@article{Lovelaceunknown3,'' @ [CHR 0x0A] @
          ''    title = {Neural Nets Revisited},'' @ [CHR 0x0A] @
          ''    author = {Ada Lovelace},'' @ [CHR 0x0A] @
          ''    year = {unknown},'' @ [CHR 0x0A] @
          ''    url = {http://x}'' @ [CHR 0x0A] @ ''}'')"
  by (simp add: generate_bibtex_def locals_undated bibtex_entry_def year_or_unknown_def
      url_or_na_def)

text \<open>
  C3, as stated: a result whose Year is the text N/A keeps N/A in the rendered year field.
  It does not: the year field of the entry is the same expression as in the key, and reads
  unknown.
\<close>

theorem undated_year_field_unknown:
  "dict_get undated_result ''Year'' (PStr ''N/A'') = PStr ''N/A'' \<and>
   year_or_unknown (PStr ''N/A'') = ''unknown'' \<and>
   year_or_unknown (PStr ''N/A'') \<noteq> ''N/A'' \<and>
   generate_bibtex undated_result 3 =
     Inr (''@article{Lovelaceunknown3,'' @ [CHR 0x0A] @
          ''    title = {Neural Nets Revisited},'' @ [CHR 0x0A] @
          ''    author = {Ada Lovelace},'' @ [CHR 0x0A] @
          ''    year = {unknown},'' @ [CHR 0x0A] @
          ''    url = {http://x}'' @ [CHR 0x0A] @ ''}'')"
proof -
  have "dict_get undated_result ''Year'' (PStr ''N/A'') = PStr ''N/A''"
    by (simp add: undated_result_def dict_get_def)
  moreover have "year_or_unknown (PStr ''N/A'') = ''unknown''"
    by (simp add: year_or_unknown_def)
  ultimately show ?thesis
    by (simp add: generate_undated)
qed

text \<open>
  C3, amended: for every result whose Year is the text N/A (or is absent), the key is the
  first author's last name, then unknown, then the ordinal, and the year field of the
  entry reads unknown as well; for the authors Ian Goodfellow, Yoshua Bengio and the
  year 2016 at ordinal 0 the key is Goodfellow20160.
\<close>

theorem undated_key_and_year_field:
  assumes "dict_get result ''Year'' (PStr ''N/A'') = PStr ''N/A''"
    and "bibtex_locals result index = Inr v"
  shows "bibtex_key v = first_author v @ ''unknown'' @ str_nat index \<and>
         generate_bibtex result index =
           Inr (''@article{'' @ first_author v @ ''unknown'' @ str_nat index @ '','' @ [CHR 0x0A] @
                ''    title = {'' @ title v @ ''},'' @ [CHR 0x0A] @
                ''    author = {'' @ bibtex_author v @ ''},'' @ [CHR 0x0A] @
                ''    year = {unknown},'' @ [CHR 0x0A] @
                ''    url = {'' @ url_or_na (url v) @ ''}'' @ [CHR 0x0A] @ ''}'') \<and>
         map_sum id bibtex_key (bibtex_locals deep_learning_result 0) = Inr ''Goodfellow20160''"
proof -
  from bibtex_locals_fields(2) [OF assms(2)] assms(1) have y: "year v = PStr ''N/A''" by simp
  then have yu: "year_or_unknown (year v) = ''unknown''" by (simp add: year_or_unknown_def)
  with bibtex_locals_fields(1) [OF assms(2)]
  have k: "bibtex_key v = first_author v @ ''unknown'' @ str_nat index" by simp
  have g: "generate_bibtex result index = Inr (bibtex_entry v)"
    using assms(2) by (simp add: generate_bibtex_def)
  show ?thesis
    using k g yu by (simp add: bibtex_entry_def locals_deep_learning)
qed

theorem undated_key_and_year_field_witness:
  "dict_get undated_result ''Year'' (PStr ''N/A'') = PStr ''N/A'' \<and>
   map_sum id bibtex_key (bibtex_locals undated_result 3) = Inr ''Lovelaceunknown3'' \<and>
   generate_bibtex undated_result 3 =
     Inr (''@article{Lovelaceunknown3,'' @ [CHR 0x0A] @
          ''    title = {Neural Nets Revisited},'' @ [CHR 0x0A] @
          ''    author = {Ada Lovelace},'' @ [CHR 0x0A] @
          ''    year = {unknown},'' @ [CHR 0x0A] @
          ''    url = {http://x}'' @ [CHR 0x0A] @ ''}'')"
proof -
  have h1: "dict_get undated_result ''Year'' (PStr ''N/A'') = PStr ''N/A''"
    by (simp add: undated_result_def dict_get_def)
  show ?thesis
    using h1 undated_key_and_year_field [OF h1 locals_undated]
    by (simp add: locals_undated url_or_na_def str_nat_digit digit_char_def)
qed

lemma generate_deep_learning:
  "generate_bibtex deep_learning_result 0 =
     Inr (''@article{Goodfellow20160,'' @ [CHR 0x0A] @
          ''    title = {Deep Learning},'' @ [CHR 0x0A] @
          ''    author = {Ian Goodfellow and Yoshua Bengio},'' @ [CHR 0x0A] @
          ''    year = {2016},'' @ [CHR 0x0A] @
          ''    url = {N/A}'' @ [CHR 0x0A] @ ''}'')"
  by (simp add: generate_bibtex_def locals_deep_learning bibtex_entry_def year_or_unknown_def
      url_or_na_def str_int_def str_nat.simps digit_char_def)



lemma sub_braces_filter:
  "sub_braces t = filter (\<lambda>c. c \<noteq> CHR 0x7B \<and> c \<noteq> CHR 0x7D) t"
  by (induction t) auto

text \<open>
  C7. For every title, the sanitisation removes every brace and nothing else, and the
  entry carries the sanitised title; the title \<open>Neural {Nets} Revisited\<close> becomes
  \<open>Neural Nets Revisited\<close>.
\<close>

theorem title_braces_removed:
  assumes "dict_get result ''Title'' (PStr ''Untitled'') = PStr t"
    and "generate_bibtex result index = Inr entry"
  shows "CHR 0x7B \<notin> set (sub_braces t) \<and> CHR 0x7D \<notin> set (sub_braces t) \<and>
         sub_braces t = filter (\<lambda>c. c \<noteq> CHR 0x7B \<and> c \<noteq> CHR 0x7D) t \<and>
         (\<exists>key rest. entry = ''@article{'' @ key @ '','' @ [CHR 0x0A] @
              ''    title = {'' @ sub_braces t @ ''},'' @ [CHR 0x0A] @ rest) \<and>
         sub_braces ''Neural {Nets} Revisited'' = ''Neural Nets Revisited''"
proof -
  from assms(2) obtain v where v: "bibtex_locals result index = Inr v"
    and e: "entry = bibtex_entry v"
    by (auto simp: generate_bibtex_def split: sum.splits)
  from bibtex_locals_fields(4) [OF v] assms(1) have t: "title v = sub_braces t" by simp
  have "\<exists>key rest. entry = ''@article{'' @ key @ '','' @ [CHR 0x0A] @
          ''    title = {'' @ sub_braces t @ ''},'' @ [CHR 0x0A] @ rest"
    unfolding e bibtex_entry_def t by (intro exI) (rule refl)
  then show ?thesis by (simp add: sub_braces_filter)
qed

theorem title_braces_removed_witness:
  "dict_get undated_result ''Title'' (PStr ''Untitled'') = PStr ''Neural {Nets} Revisited'' \<and>
   generate_bibtex undated_result 3 =
     Inr (''@article{Lovelaceunknown3,'' @ [CHR 0x0A] @
          ''    title = {Neural Nets Revisited},'' @ [CHR 0x0A] @
          ''    author = {Ada Lovelace},'' @ [CHR 0x0A] @
          ''    year = {unknown},'' @ [CHR 0x0A] @
          ''    url = {http://x}'' @ [CHR 0x0A] @ ''}'') \<and>
   CHR 0x7B \<notin> set (sub_braces ''Neural {Nets} Revisited'') \<and>
   CHR 0x7D \<notin> set (sub_braces ''Neural {Nets} Revisited'') \<and>
   sub_braces ''Neural {Nets} Revisited'' = ''Neural Nets Revisited''"
proof -
  have h1: "dict_get undated_result ''Title'' (PStr ''Untitled'') =
      PStr ''Neural {Nets} Revisited''"
    by (simp add: undated_result_def dict_get_def)
  from title_braces_removed [OF h1 generate_undated]
  have "CHR 0x7B \<notin> set (sub_braces ''Neural {Nets} Revisited'') \<and>
        CHR 0x7D \<notin> set (sub_braces ''Neural {Nets} Revisited'') \<and>
        sub_braces ''Neural {Nets} Revisited'' = ''Neural Nets Revisited''"
    by blast
  with h1 generate_undated show ?thesis by blast
qed

text \<open>
  C9. For every result record and every ordinal, \<^verbatim>\<open>generate_bibtex\<close> is to return a
  text. It raises IndexError on the record the normalisation makes of a publication whose
  only author is a blank: the first author is not empty, and its split on whitespace is.
\<close>

theorem generate_bibtex_blank_author:
  "normalize_record blank_author_pub = Inr blank_author_result \<and>
   generate_bibtex blank_author_result 0 = Inl IndexError"
proof -
  have "normalize_record blank_author_pub = Inr blank_author_result"
    by (simp add: normalize_record_def blank_author_pub_def blank_author_result_def dict_get_def)
  moreover have "generate_bibtex blank_author_result 0 = Inl IndexError"
    by (simp add: generate_bibtex_def bibtex_locals_def blank_author_result_def dict_get_def
        first_author_of_def py_isspace_def)
  ultimately show ?thesis by simp
qed

text \<open>
  C10. Two invocations with equal result records and equal ordinals give the same text,
  character for character. More than that holds of the code: the invocations need only
  agree on the four fields the function looks up (Title, Authors, Year and URL, each with
  its default) and on the ordinal, so that no other field of the record and no reading of
  the clock reaches the text; the downloads built from them at two clock readings carry
  the same data, and differ in their file names alone.
\<close>

theorem bibtex_text_determined:
  assumes "dict_get r1 ''Title'' (PStr ''Untitled'') = dict_get r2 ''Title'' (PStr ''Untitled'')"
    and "dict_get r1 ''Authors'' (PStr ''Unknown Author'') =
         dict_get r2 ''Authors'' (PStr ''Unknown Author'')"
    and "dict_get r1 ''Year'' (PStr ''N/A'') = dict_get r2 ''Year'' (PStr ''N/A'')"
    and "dict_get r1 ''URL'' (PStr []) = dict_get r2 ''URL'' (PStr [])"
    and "i1 = i2"
  shows "generate_bibtex r1 i1 = generate_bibtex r2 i2 \<and>
         map_sum id data (bibtex_download stamp1 r1 i1) =
         map_sum id data (bibtex_download stamp2 r2 i2) \<and>
         (stamp1 \<noteq> stamp2 \<and> generate_bibtex r1 i1 = Inr entry \<longrightarrow>
            map_sum id file_name (bibtex_download stamp1 r1 i1) \<noteq>
            map_sum id file_name (bibtex_download stamp2 r2 i2))"
proof -
  have l: "bibtex_locals r1 i1 = bibtex_locals r2 i2"
    using assms by (simp add: bibtex_locals_def)
  then have g: "generate_bibtex r1 i1 = generate_bibtex r2 i2"
    by (simp add: generate_bibtex_def)
  have d: "map_sum id data (bibtex_download stamp r i) = generate_bibtex r i" for stamp r i
    by (simp add: bibtex_download_def split: sum.splits)
  have f: "map_sum id file_name (bibtex_download stamp1 r1 i1) \<noteq>
           map_sum id file_name (bibtex_download stamp2 r2 i2)"
    if ne: "stamp1 \<noteq> stamp2" and e1: "generate_bibtex r1 i1 = Inr entry"
  proof -
    from e1 g have e2: "generate_bibtex r2 i2 = Inr entry" by simp
    from e1 have "map_sum id file_name (bibtex_download stamp1 r1 i1) =
        Inr (''citation_'' @ str_nat (i1 + 1) @ ''_'' @ stamp1 @ ''.bib'')"
      by (simp add: bibtex_download_def)
    moreover from e2 have "map_sum id file_name (bibtex_download stamp2 r2 i2) =
        Inr (''citation_'' @ str_nat (i2 + 1) @ ''_'' @ stamp2 @ ''.bib'')"
      by (simp add: bibtex_download_def)
    ultimately show ?thesis using ne assms(5) by simp
  qed
  from g d f show ?thesis by simp
qed

theorem bibtex_text_determined_witness:
  "dict_get deep_learning_result ''Title'' (PStr ''Untitled'') =
     dict_get deep_learning_recounted ''Title'' (PStr ''Untitled'') \<and>
   dict_get deep_learning_result ''Authors'' (PStr ''Unknown Author'') =
     dict_get deep_learning_recounted ''Authors'' (PStr ''Unknown Author'') \<and>
   dict_get deep_learning_result ''Year'' (PStr ''N/A'') =
     dict_get deep_learning_recounted ''Year'' (PStr ''N/A'') \<and>
   dict_get deep_learning_result ''URL'' (PStr []) =
     dict_get deep_learning_recounted ''URL'' (PStr []) \<and>
   deep_learning_result \<noteq> deep_learning_recounted \<and>
   ''20261103_120000'' \<noteq> ''20261103_120001'' \<and>
   generate_bibtex deep_learning_recounted 0 =
     Inr (''@article{Goodfellow20160,'' @ [CHR 0x0A] @
          ''    title = {Deep Learning},'' @ [CHR 0x0A] @
          ''    author = {Ian Goodfellow and Yoshua Bengio},'' @ [CHR 0x0A] @
          ''    year = {2016},'' @ [CHR 0x0A] @
          ''    url = {N/A}'' @ [CHR 0x0A] @ ''}'') \<and>
   map_sum id data (bibtex_download ''20261103_120000'' deep_learning_result 0) =
   map_sum id data (bibtex_download ''20261103_120001'' deep_learning_recounted 0) \<and>
   map_sum id file_name (bibtex_download ''20261103_120000'' deep_learning_result 0) \<noteq>
   map_sum id file_name (bibtex_download ''20261103_120001'' deep_learning_recounted 0)"
proof -
  have h1: "dict_get deep_learning_result ''Title'' (PStr ''Untitled'') =
      dict_get deep_learning_recounted ''Title'' (PStr ''Untitled'')"
    and h2: "dict_get deep_learning_result ''Authors'' (PStr ''Unknown Author'') =
      dict_get deep_learning_recounted ''Authors'' (PStr ''Unknown Author'')"
    and h3: "dict_get deep_learning_result ''Year'' (PStr ''N/A'') =
      dict_get deep_learning_recounted ''Year'' (PStr ''N/A'')"
    and h4: "dict_get deep_learning_result ''URL'' (PStr []) =
      dict_get deep_learning_recounted ''URL'' (PStr [])"
    by (simp_all add: deep_learning_result_def deep_learning_recounted_def dict_get_def)
  have h5: "(0::nat) = 0" by simp
  have ne: "deep_learning_result \<noteq> deep_learning_recounted"
    by (simp add: deep_learning_result_def deep_learning_recounted_def)
  have st: "''20261103_120000'' \<noteq> ''20261103_120001''" by simp
  note t = bibtex_text_determined [OF h1 h2 h3 h4 h5,
      of "''20261103_120000''" "''20261103_120001''"
         "''@article{Goodfellow20160,'' @ [CHR 0x0A] @
          ''    title = {Deep Learning},'' @ [CHR 0x0A] @
          ''    author = {Ian Goodfellow and Yoshua Bengio},'' @ [CHR 0x0A] @
          ''    year = {2016},'' @ [CHR 0x0A] @
          ''    url = {N/A}'' @ [CHR 0x0A] @ ''}''"]
  from t generate_deep_learning have g: "generate_bibtex deep_learning_recounted 0 =
     Inr (''@article{Goodfellow20160,'' @ [CHR 0x0A] @
          ''    title = {Deep Learning},'' @ [CHR 0x0A] @
          ''    author = {Ian Goodfellow and Yoshua Bengio},'' @ [CHR 0x0A] @
          ''    year = {2016},'' @ [CHR 0x0A] @
          ''    url = {N/A}'' @ [CHR 0x0A] @ ''}'')"
    by simp
  from t have d: "map_sum id data (bibtex_download ''20261103_120000'' deep_learning_result 0) =
      map_sum id data (bibtex_download ''20261103_120001'' deep_learning_recounted 0)"
    by blast
  from t st generate_deep_learning
  have f: "map_sum id file_name (bibtex_download ''20261103_120000'' deep_learning_result 0) \<noteq>
      map_sum id file_name (bibtex_download ''20261103_120001'' deep_learning_recounted 0)"
    by blast
  from h1 h2 h3 h4 ne st g d f show ?thesis by blast
qed

section \<open>Normalisation of the fields\<close>

lemma normalize_flat:
  "normalize_record deep_learning_flat = Inr deep_learning_flat_result"
  by (simp add: normalize_record_def deep_learning_flat_def deep_learning_flat_result_def
      dict_get_def)

text \<open>
  C4, as stated: an empty abstract becomes N/A and an empty e-print link falls through
  to the publication page and then to N/A. It does not: the defaults of \<^verbatim>\<open>get\<close> apply
  to an absent key only. The example record normalises to the abstract and the link it
  has, both empty; written flat, as the example prints it, its link is empty as well.
\<close>

theorem normalize_keeps_empty_fields:
  "normalize_record deep_learning_pub = Inr deep_learning_result \<and>
   dict_get deep_learning_result ''Abstract'' PNone = PStr [] \<and>
   dict_get deep_learning_result ''Abstract'' PNone \<noteq> PStr ''N/A'' \<and>
   dict_get deep_learning_result ''URL'' PNone = PStr [] \<and>
   dict_get deep_learning_result ''URL'' PNone \<noteq> PStr ''N/A'' \<and>
   normalize_record deep_learning_flat = Inr deep_learning_flat_result \<and>
   dict_get deep_learning_flat_result ''URL'' PNone = PStr []"
proof -
  have "dict_get deep_learning_result ''Abstract'' PNone = PStr []"
    and "dict_get deep_learning_result ''URL'' PNone = PStr []"
    and "dict_get deep_learning_flat_result ''URL'' PNone = PStr []"
    by (simp_all add: deep_learning_result_def deep_learning_flat_result_def dict_get_def)
  then show ?thesis by (simp add: normalize_deep_learning normalize_flat)
qed

text \<open>
  C4, amended: a record whose \<^verbatim>\<open>bib\<close> has no abstract gets the abstract N/A, and an
  abstract that is present is kept as it is, also when empty; the link is the e-print
  link whenever that key is present (also when empty), else the publication-page link
  when that key is present, else N/A. The example record normalises to an empty abstract
  and an empty link.
\<close>

theorem normalize_abstract_url:
  assumes "dict_get p ''bib'' (PDict []) = PDict b"
    and "py_join '', '' (dict_get b ''author'' (PList [])) = Inr authors"
  shows "(\<exists>r. normalize_record (PDict p) = Inr r \<and>
            dict_get r ''Abstract'' PNone =
              (case map_of b ''abstract'' of None \<Rightarrow> PStr ''N/A'' | Some a \<Rightarrow> a) \<and>
            dict_get r ''URL'' PNone =
              (case map_of p ''eprint_url'' of
                 Some u \<Rightarrow> u
               | None \<Rightarrow> (case map_of p ''pub_url'' of Some u \<Rightarrow> u | None \<Rightarrow> PStr ''N/A''))) \<and>
         normalize_record deep_learning_pub = Inr deep_learning_result \<and>
         dict_get deep_learning_result ''Abstract'' PNone = PStr [] \<and>
         dict_get deep_learning_result ''URL'' PNone = PStr []"
proof -
  have "dict_get deep_learning_result ''Abstract'' PNone = PStr []"
    and "dict_get deep_learning_result ''URL'' PNone = PStr []"
    by (simp_all add: deep_learning_result_def dict_get_def)
  moreover have "\<exists>r. normalize_record (PDict p) = Inr r \<and>
            dict_get r ''Abstract'' PNone =
              (case map_of b ''abstract'' of None \<Rightarrow> PStr ''N/A'' | Some a \<Rightarrow> a) \<and>
            dict_get r ''URL'' PNone =
              (case map_of p ''eprint_url'' of
                 Some u \<Rightarrow> u
               | None \<Rightarrow> (case map_of p ''pub_url'' of Some u \<Rightarrow> u | None \<Rightarrow> PStr ''N/A''))"
    using assms by (simp add: normalize_record_def) (simp add: dict_get_def)
  ultimately show ?thesis by (simp add: normalize_deep_learning)
qed

theorem normalize_abstract_url_witness:
  "dict_get [(''bib'', PDict [(''title'', PStr ''A Survey'')]), (''pub_url'', PStr ''http://p'')]
      ''bib'' (PDict []) = PDict [(''title'', PStr ''A Survey'')] \<and>
   py_join '', '' (dict_get [(''title'', PStr ''A Survey'')] ''author'' (PList [])) = Inr [] \<and>
   normalize_record
     (PDict [(''bib'', PDict [(''title'', PStr ''A Survey'')]), (''pub_url'', PStr ''http://p'')]) =
     Inr [(''Title'', PStr ''A Survey''), (''Authors'', PStr []), (''Year'', PStr ''N/A''),
          (''Cited By'', PInt 0), (''Abstract'', PStr ''N/A''), (''URL'', PStr ''http://p'')]"
proof -
  let ?b = "[(''title'', PStr ''A Survey'')]"
  let ?p = "[(''bib'', PDict ?b), (''pub_url'', PStr ''http://p'')]"
  have h1: "dict_get ?p ''bib'' (PDict []) = PDict ?b" by (simp add: dict_get_def)
  have h2: "py_join '', '' (dict_get ?b ''author'' (PList [])) = Inr []"
    by (simp add: dict_get_def)
  have n: "normalize_record (PDict ?p) =
     Inr [(''Title'', PStr ''A Survey''), (''Authors'', PStr []), (''Year'', PStr ''N/A''),
          (''Cited By'', PInt 0), (''Abstract'', PStr ''N/A''), (''URL'', PStr ''http://p'')]"
    using normalize_abstract_url [OF h1 h2] by (simp add: normalize_record_def dict_get_def)
  from h1 h2 n show ?thesis by blast
qed

section \<open>Failures inside the loop\<close>

text \<open>
  C5, as stated: a record whose normalisation raises is skipped and the rest of the
  sequence is processed. It is not: with a record whose \<^verbatim>\<open>bib\<close> is None in second place,
  the whole query ends with the AttributeError and no results.
\<close>

theorem scholar_search_malformed_aborts:
  "scholar_search 2 [deep_learning_pub, malformed_pub, deep_learning_pub, deep_learning_pub] =
     Inl AttributeError"
  by (simp add: scholar_search_def numeral_2_eq_2 normalize_malformed)

text \<open>
  C5, amended: when normalising a record of the sequence raises, the exception is not
  caught and the whole query aborts, returning no results; when every record handed to
  normalisation is well-formed, the query returns their normal forms in order. Only the
  exhaustion of the sequence is handled, by ending the loop with the results so far.
\<close>

theorem scholar_search_all_or_abort:
  "(list_all normalizes (pulled n sq) \<longrightarrow>
      scholar_search n sq = Inr (map normalized (pulled n sq))) \<and>
   (\<not> list_all normalizes (pulled n sq) \<longrightarrow> (\<exists>e. scholar_search n sq = Inl e))"
  using scholar_loop_ok [of n 0 sq "[]"] scholar_loop_abort [of n 0 sq "[]"]
  by (simp add: scholar_search_def)

theorem scholar_search_all_or_abort_witness:
  "list_all normalizes (pulled 2 [deep_learning_pub, deep_learning_pub, deep_learning_pub]) \<and>
   scholar_search 2 [deep_learning_pub, deep_learning_pub, deep_learning_pub] =
     Inr [deep_learning_result] \<and>
   \<not> list_all normalizes
       (pulled 2 [deep_learning_pub, malformed_pub, deep_learning_pub, deep_learning_pub]) \<and>
   (\<exists>e. scholar_search 2
          [deep_learning_pub, malformed_pub, deep_learning_pub, deep_learning_pub] = Inl e)"
proof -
  have h1: "list_all normalizes (pulled 2 [deep_learning_pub, deep_learning_pub, deep_learning_pub])"
    by (simp add: numeral_2_eq_2 normalizes_def normalize_deep_learning)
  have h2: "\<not> list_all normalizes
       (pulled 2 [deep_learning_pub, malformed_pub, deep_learning_pub, deep_learning_pub])"
    by (simp add: numeral_2_eq_2 normalizes_def normalize_malformed)
  have p: "map normalized (pulled 2 [deep_learning_pub, deep_learning_pub, deep_learning_pub]) =
      [deep_learning_result]"
    by (simp add: numeral_2_eq_2 normalized_def normalize_deep_learning)
  from scholar_search_all_or_abort
      [of 2 "[deep_learning_pub, deep_learning_pub, deep_learning_pub]"] h1 p
  have a: "scholar_search 2 [deep_learning_pub, deep_learning_pub, deep_learning_pub] =
      Inr [deep_learning_result]" by simp
  from scholar_search_all_or_abort
      [of 2 "[deep_learning_pub, malformed_pub, deep_learning_pub, deep_learning_pub]"] h2
  have b: "\<exists>e. scholar_search 2
      [deep_learning_pub, malformed_pub, deep_learning_pub, deep_learning_pub] = Inl e"
    by blast
  from h1 h2 a b show ?thesis by blast
qed

section \<open>The pages\<close>

text \<open>On a str the two written values are the texts of lines 139 and 165.\<close>

lemma abstract_write_str: "abstract_write (PStr s) = Inr (PStr (abstract_text s))"
  by (simp add: abstract_write_def py_then_def abstract_text_def)

lemma snippet_write_str: "snippet_write (PStr s) = Inr (snippet_text s)"
  by (simp add: snippet_write_def py_then_def snippet_text_def)

text \<open>
  A run ends with the exception where the display raises: on an abstract that is None,
  on a first author that is blank, on a web record without a body.
\<close>

lemma abstract_write_none: "abstract_write PNone = Inl TypeError"
  by (simp add: abstract_write_def py_then_def)

lemma scholar_card_blank_author: "scholar_card stamp blank_author_result 0 = Inl IndexError"
  by (simp add: scholar_card_def py_then_def blank_author_result_def abstract_write_def
      bibtex_download_def generate_bibtex_def bibtex_locals_def dict_get_def
      first_author_of_def py_isspace_def)

lemma web_card_no_body: "web_card (PDict [(''title'', PStr ''X'')]) = Inl KeyError"
  by (simp add: web_card_def py_then_def)

lemma web_page_no_body:
  "ddgs_text A ''q'' 5 = [PDict [(''title'', PStr ''X'')]] \<Longrightarrow>
   on_search A True ''q'' Web_DuckDuckGo 5 = ([Ddgs_text ''q'' 5], Raised KeyError)"
  by (simp add: on_search_def web_page_def web_card_def py_then_def)

lemma scholar_page_blank_author:
  assumes "search_pubs A ''q'' = [deep_learning_pub, blank_author_pub]"
  shows "on_search A True ''q'' Google_Scholar 1 = ([Search_pubs ''q''], Raised IndexError)"
proof -
  have n: "normalize_record blank_author_pub = Inr blank_author_result"
    by (simp add: normalize_record_def blank_author_pub_def blank_author_result_def dict_get_def)
  have "scholar_search 1 [deep_learning_pub, blank_author_pub] = Inr [blank_author_result]"
    by (simp add: scholar_search_def n)
  with assms show ?thesis
    by (simp add: on_search_def scholar_page_def py_then_def scholar_card_blank_author)
qed

section \<open>The empty query\<close>

text \<open>
  C8. With the empty query, pressing the button calls no adapter and produces no results:
  the page holds the warning, not an error.
\<close>

theorem on_search_empty_query:
  "on_search A True [] st num_results = ([], Warning)"
  by (simp add: on_search_def)

end
